theory Spec2Isabelle
  imports Complex_Main "HOL-Library.Log_Nat"
begin

section \<open>Doubles\<close>

text \<open>
  The kernel computes on C \<open>double\<close>s. They are modelled as the reals extended by one
  not-a-number value: \<open>Fin r\<close> is the finite double of value \<open>r\<close>, \<open>NaN\<close> is the
  sentinel that \<open>NAN\<close> and \<open>isnan\<close> of the source speak about. Arithmetic on finite
  values is exact (no rounding, no overflow to an infinity), every operation with a
  \<open>NaN\<close> operand gives \<open>NaN\<close>, and every comparison with a \<open>NaN\<close> operand is false, as
  in IEEE 754. A division by zero gives \<open>NaN\<close>; a run never divides by zero (its
  divisors are constants, a window of at least 2, a denominator above \<open>1e-12\<close>, a peak
  above zero, a positive trade count, and the entry price of an open position, which
  the invariant below shows is not zero). Only the entry fill is given a second time
  with rounding (section on the entry fill with rounding), because two of its tests can
  only be reached through rounding.
\<close>

datatype dbl = NaN | Fin real

instantiation dbl :: "{plus, minus, uminus, times, inverse, ord}"
begin

fun plus_dbl :: "dbl \<Rightarrow> dbl \<Rightarrow> dbl" where
  "plus_dbl (Fin a) (Fin b) = Fin (a + b)"
| "plus_dbl _ _ = NaN"

fun minus_dbl :: "dbl \<Rightarrow> dbl \<Rightarrow> dbl" where
  "minus_dbl (Fin a) (Fin b) = Fin (a - b)"
| "minus_dbl _ _ = NaN"

fun uminus_dbl :: "dbl \<Rightarrow> dbl" where
  "uminus_dbl (Fin a) = Fin (- a)"
| "uminus_dbl NaN = NaN"

fun times_dbl :: "dbl \<Rightarrow> dbl \<Rightarrow> dbl" where
  "times_dbl (Fin a) (Fin b) = Fin (a * b)"
| "times_dbl _ _ = NaN"

fun divide_dbl :: "dbl \<Rightarrow> dbl \<Rightarrow> dbl" where
  "divide_dbl (Fin a) (Fin b) = (if b = 0 then NaN else Fin (a / b))"
| "divide_dbl _ _ = NaN"

definition inverse_dbl :: "dbl \<Rightarrow> dbl" where
  "inverse_dbl x = divide (Fin 1) x"

fun less_dbl :: "dbl \<Rightarrow> dbl \<Rightarrow> bool" where
  "less_dbl (Fin a) (Fin b) = (a < b)"
| "less_dbl _ _ = False"

fun less_eq_dbl :: "dbl \<Rightarrow> dbl \<Rightarrow> bool" where
  "less_eq_dbl (Fin a) (Fin b) = (a \<le> b)"
| "less_eq_dbl _ _ = False"

instance ..

end

fun isnan :: "dbl \<Rightarrow> bool" where
  "isnan NaN = True"
| "isnan (Fin a) = False"

fun floor_d :: "dbl \<Rightarrow> dbl" where
  "floor_d (Fin a) = Fin (of_int \<lfloor>a\<rfloor>)"
| "floor_d NaN = NaN"

fun fabs :: "dbl \<Rightarrow> dbl" where
  "fabs (Fin a) = Fin \<bar>a\<bar>"
| "fabs NaN = NaN"

text \<open>\<open>maxd\<close> and \<open>clamp_nonneg\<close>, lines 7 and 8 of \<open>backtest_core.c\<close>.\<close>

definition maxd :: "dbl \<Rightarrow> dbl \<Rightarrow> dbl" where
  "maxd a b = (if a > b then a else b)"

definition clamp_nonneg :: "dbl \<Rightarrow> dbl" where
  "clamp_nonneg x = (if x < Fin 0 \<or> isnan x then Fin 0 else x)"

section \<open>Simple moving average\<close>

text \<open>
  \<open>compute_sma\<close> (lines 11 to 22) fills \<open>out[0..n-1]\<close>; the model returns the filled
  array. For \<open>w \<le> 1\<close> the input is copied. Otherwise \<open>sma_loop\<close> is the \<open>for\<close> loop with
  its index \<open>i\<close> and its running sum \<open>s\<close>. The sum is exact here; on the machine it is
  rounded at every step and can cancel, so the value of a defined entry is that of the
  code only where the additions are exact, as they are on the small integer prices used
  below. How \<open>NaN\<close> spreads through the sum does not depend on rounding.
\<close>

function sma_loop :: "dbl list \<Rightarrow> int \<Rightarrow> nat \<Rightarrow> dbl \<Rightarrow> dbl list" where
  "sma_loop x w i s =
     (if i < length x then
        (let s1 = s + x ! i;
             s2 = (if int i \<ge> w then s1 - x ! nat (int i - w) else s1)
         in (if int i + 1 \<ge> w then s2 / Fin (of_int w) else NaN) # sma_loop x w (i + 1) s2)
      else [])"
  by pat_completeness auto
termination
  by (relation "measure (\<lambda>(x, w, i, s). length x - i)") auto

declare sma_loop.simps [simp del]

definition compute_sma :: "dbl list \<Rightarrow> int \<Rightarrow> dbl list" where
  "compute_sma x w = (if w \<le> 1 then x else sma_loop x w 0 (Fin 0))"

section \<open>The backtest\<close>

text \<open>
  The sanitised parameters of a run and the portfolio state that the loop of
  \<open>ma_cross_backtest\<close> mutates (lines 58 to 63). The counters are C \<open>int\<close>s; they are
  modelled as unbounded integers (a run closes at most one trade per candle and one more
  at the end, so they stay far below \<open>2^31\<close> for any array that fits in memory).
\<close>

record params =
  fee_rate :: dbl
  slip_bps :: dbl
  tp :: dbl
  sl :: dbl

record state =
  cash :: dbl
  pos :: dbl
  entry :: dbl
  peak :: dbl
  maxdd :: dbl
  trades :: int
  wins :: int

definition initial_cash :: dbl where
  "initial_cash = Fin 10000"

definition eps :: dbl where
  "eps = Fin (1 / 10 ^ 12)"

definition lot_round :: dbl where
  "lot_round = Fin (1 / 10 ^ 8)"

definition init_state :: state where
  "init_state = \<lparr>cash = initial_cash, pos = Fin 0, entry = NaN,
                  peak = initial_cash, maxdd = Fin 0, trades = 0, wins = 0\<rparr>"

text \<open>
  The exit fill, written out twice in the loop: lines 82 to 89 (take profit, stop loss)
  and lines 118 to 125 (crossover exit).
\<close>

definition exit_fill :: "params \<Rightarrow> dbl \<Rightarrow> state \<Rightarrow> state" where
  "exit_fill P price st =
     (let p_fill = price * (Fin 1 - slip_bps P / Fin 10000);
          proceeds = pos st * p_fill;
          fee = proceeds * fee_rate P;
          cash1 = cash st + (proceeds - fee)
      in st\<lparr>cash := clamp_nonneg cash1, pos := Fin 0, entry := NaN,
             trades := trades st + 1,
             wins := (if p_fill > entry st then wins st + 1 else wins st)\<rparr>)"

text \<open>
  Lines 74 to 91: \<open>risk_hit\<close> is the flag \<open>hit\<close>, \<open>risk_check\<close> the whole block. The
  return \<open>pnl\<close> is exact here; on the machine it is rounded, which can move the test
  when \<open>pnl\<close> and the threshold differ by less than the rounding.
\<close>

definition risk_hit :: "params \<Rightarrow> dbl \<Rightarrow> state \<Rightarrow> bool" where
  "risk_hit P price st =
     (let pnl = (price - entry st) / entry st
      in if tp P > Fin 0 \<and> pnl \<ge> tp P then True
         else if sl P > Fin 0 \<and> pnl \<le> - sl P then True
         else False)"

definition risk_check :: "params \<Rightarrow> dbl \<Rightarrow> state \<Rightarrow> state" where
  "risk_check P price st =
     (if pos st > Fin 0 \<and> \<not> isnan (entry st)
      then (if risk_hit P price st then exit_fill P price st else st)
      else st)"

text \<open>
  Lines 94 to 96: the two signals, from \<open>pf = f[i-1]\<close>, \<open>ps = s[i-1]\<close>, \<open>cf = f[i]\<close> and
  \<open>cs = s[i]\<close>.
\<close>

definition long_entry :: "dbl \<Rightarrow> dbl \<Rightarrow> dbl \<Rightarrow> dbl \<Rightarrow> bool" where
  "long_entry pf ps cf cs =
     (\<not> isnan pf \<and> \<not> isnan ps \<and> \<not> isnan cf \<and> \<not> isnan cs \<and> pf \<le> ps \<and> cf > cs)"

definition long_exit :: "dbl \<Rightarrow> dbl \<Rightarrow> dbl \<Rightarrow> dbl \<Rightarrow> bool" where
  "long_exit pf ps cf cs =
     (\<not> isnan pf \<and> \<not> isnan ps \<and> \<not> isnan cf \<and> \<not> isnan cs \<and> pf \<ge> ps \<and> cf < cs)"

text \<open>Lines 99 to 116: the entry fill, with its three nested guards.\<close>

definition entry_fill :: "params \<Rightarrow> dbl \<Rightarrow> state \<Rightarrow> state" where
  "entry_fill P price st =
     (let p_fill = price * (Fin 1 + slip_bps P / Fin 10000);
          denom = p_fill * (Fin 1 + fee_rate P)
      in if denom > eps then
           (let budget = cash st;
                qty = floor_d ((budget / denom) / lot_round) * lot_round
            in if qty > Fin 0 then
                 (let cost = qty * p_fill;
                      fee = cost * fee_rate P;
                      new_cash0 = budget - (cost + fee);
                      new_cash = (if new_cash0 < Fin 0 \<and> fabs new_cash0 < Fin (1 / 10 ^ 6)
                                  then Fin 0 else new_cash0)
                  in if new_cash \<ge> - eps
                     then st\<lparr>cash := clamp_nonneg new_cash, pos := qty, entry := p_fill\<rparr>
                     else st)
               else st)
         else st)"

text \<open>
  Lines 98 to 126: which branch the \<open>if / else if\<close> on the signals takes, and the
  branch taken.
\<close>

datatype action = Entry | SignalExit | NoAction

definition signal_action :: "dbl \<Rightarrow> dbl \<Rightarrow> dbl \<Rightarrow> dbl \<Rightarrow> state \<Rightarrow> action" where
  "signal_action pf ps cf cs st =
     (if long_entry pf ps cf cs \<and> pos st \<le> Fin 0 then Entry
      else if long_exit pf ps cf cs \<and> pos st > Fin 0 then SignalExit
      else NoAction)"

definition signal_step :: "params \<Rightarrow> dbl \<Rightarrow> dbl \<Rightarrow> dbl \<Rightarrow> dbl \<Rightarrow> dbl \<Rightarrow> state \<Rightarrow> state" where
  "signal_step P price pf ps cf cs st =
     (case signal_action pf ps cf cs st of
        Entry \<Rightarrow> entry_fill P price st
      | SignalExit \<Rightarrow> exit_fill P price st
      | NoAction \<Rightarrow> st)"

text \<open>Lines 128 to 134: equity, peak and maximum drawdown.\<close>

definition mdd_update :: "dbl \<Rightarrow> state \<Rightarrow> state" where
  "mdd_update price st =
     (let equity = cash st + pos st * price;
          peak1 = maxd (peak st) equity
      in if peak1 > Fin 0 then
           (let dd = (peak1 - equity) / peak1
            in st\<lparr>peak := peak1, maxdd := (if dd > maxdd st then dd else maxdd st)\<rparr>)
         else st\<lparr>peak := peak1\<rparr>)"

text \<open>
  One iteration of the loop (lines 70 to 134) at index \<open>i\<close>, and the loop itself:
  \<open>run_loop P px f s m st\<close> runs the iterations \<open>i = 1, \<dots>, m - 1\<close> from \<open>st\<close>, so with
  \<open>m = n\<close> it is the whole \<open>for\<close> loop and with \<open>m \<le> n\<close> it is the state at the head of
  iteration \<open>m\<close>.
\<close>

definition candle :: "params \<Rightarrow> dbl list \<Rightarrow> dbl list \<Rightarrow> dbl list \<Rightarrow> nat \<Rightarrow> state \<Rightarrow> state" where
  "candle P px f s i st =
     (let price = px ! i
      in if \<not> (price > Fin 0) then st
         else mdd_update price
                (signal_step P price (f ! (i - 1)) (s ! (i - 1)) (f ! i) (s ! i)
                   (risk_check P price st)))"

definition run_loop :: "params \<Rightarrow> dbl list \<Rightarrow> dbl list \<Rightarrow> dbl list \<Rightarrow> nat \<Rightarrow> state \<Rightarrow> state" where
  "run_loop P px f s m st = foldl (\<lambda>st i. candle P px f s i st) st [1..<m]"

text \<open>Lines 138 to 150: the forced liquidation after the loop.\<close>

definition liquidate :: "params \<Rightarrow> dbl list \<Rightarrow> state \<Rightarrow> state" where
  "liquidate P px st =
     (if pos st > Fin 0 then
        (let last_px = px ! (length px - 1)
         in if last_px > Fin 0 then
              (let p_fill = last_px * (Fin 1 - slip_bps P / Fin 10000);
                   proceeds = pos st * p_fill;
                   fee = proceeds * fee_rate P;
                   cash1 = cash st + (proceeds - fee)
               in st\<lparr>cash := clamp_nonneg cash1, pos := Fin 0, entry := NaN,
                      trades := trades st + 1,
                      wins := (if \<not> isnan (entry st) \<and> p_fill > entry st
                               then wins st + 1 else wins st)\<rparr>)
            else st)
      else st)"

text \<open>
  The state when \<open>final_equity\<close> is computed (line 152): both averages, the loop from
  the initial state, the forced liquidation.
\<close>

definition simulate :: "params \<Rightarrow> int \<Rightarrow> int \<Rightarrow> dbl list \<Rightarrow> state" where
  "simulate P fast slow px =
     liquidate P px
       (run_loop P px (compute_sma px fast) (compute_sma px slow) (length px) init_state)"

text \<open>Lines 152 to 166: the reported figures.\<close>

record result =
  final_equity :: dbl
  total_return :: dbl
  max_drawdown :: dbl
  n_trades :: int
  win_rate :: dbl

definition report :: "state \<Rightarrow> result" where
  "report st =
     (let fe = (if \<not> (cash st \<ge> Fin 0) then Fin 0 else cash st)
      in \<lparr>final_equity = fe,
          total_return = (if initial_cash > Fin 0 then fe / initial_cash - Fin 1 else Fin 0),
          max_drawdown = maxdd st,
          n_trades = trades st,
          win_rate = (if trades st > 0
                      then Fin (of_int (wins st)) / Fin (of_int (trades st)) else Fin 0)\<rparr>)"

text \<open>
  \<open>ma_cross_backtest\<close> (lines 24 to 168) on a one-dimensional float64 array: the
  parameters are clamped (lines 36 to 39), a series shorter than \<open>slow + 2\<close> is refused
  (line 46), and the simulation is reported. The conversion of the Python argument to
  the array and the allocation of the two buffers are taken to succeed. The windows are
  C \<open>int\<close>s, so \<open>fast0\<close> and \<open>slow0\<close> range over the 32-bit signed integers; the sum
  \<open>slow + 2\<close> of line 46 is computed in \<open>int\<close> and wraps around at \<open>2^31\<close> (C leaves the
  overflow undefined; the usual build wraps).
\<close>

datatype error = NotEnoughData

definition wrap32 :: "int \<Rightarrow> int" where
  "wrap32 x = (x + 2 ^ 31) mod 2 ^ 32 - 2 ^ 31"

definition ma_cross_backtest ::
  "dbl list \<Rightarrow> int \<Rightarrow> int \<Rightarrow> dbl \<Rightarrow> dbl \<Rightarrow> dbl \<Rightarrow> dbl \<Rightarrow> error + result" where
  "ma_cross_backtest prices fast0 slow0 fee_rate0 slip_bps0 tp0 sl0 =
     (let fast = (if fast0 < 1 then 1 else fast0);
          slow = (if slow0 < fast then fast else slow0);
          fee1 = (if fee_rate0 < Fin 0 then Fin 0 else fee_rate0);
          fee2 = (if fee1 > Fin (5 / 100) then Fin (5 / 100) else fee1);
          slip1 = (if slip_bps0 < Fin 0 then Fin 0 else slip_bps0);
          slip2 = (if slip1 > Fin 1000 then Fin 1000 else slip1)
      in if int (length prices) < wrap32 (slow + 2) then Inl NotEnoughData
         else Inr (report (simulate \<lparr>fee_rate = fee2, slip_bps = slip2, tp = tp0, sl = sl0\<rparr>
                             fast slow prices)))"

section \<open>The wording of the specification, and the quantities of an entry fill\<close>

text \<open>
  The moving average of the specification: \<open>series[i]\<close> is undefined for
  \<open>i + 1 < window\<close> and otherwise the mean of \<open>prices[i - window + 1 .. i]\<close>. The sum
  is the sum of doubles, so one \<open>NaN\<close> in the window makes the mean \<open>NaN\<close>.
\<close>

definition window_mean :: "dbl list \<Rightarrow> nat \<Rightarrow> nat \<Rightarrow> dbl" where
  "window_mean x w i = foldl (+) (Fin 0) (map ((!) x) [i + 1 - w ..< i + 1]) / Fin (real w)"

definition sma_spec :: "dbl list \<Rightarrow> nat \<Rightarrow> nat \<Rightarrow> dbl" where
  "sma_spec x w i = (if i + 1 < w then NaN else window_mean x w i)"

text \<open>
  The quantities of an entry fill as the specification names them: the fill price, the
  quantity bought, and the cash left after cost and fee.
\<close>

definition entry_fill_price :: "params \<Rightarrow> dbl \<Rightarrow> dbl" where
  "entry_fill_price P price = price * (Fin 1 + slip_bps P / Fin 10000)"

definition entry_denom :: "params \<Rightarrow> dbl \<Rightarrow> dbl" where
  "entry_denom P price = entry_fill_price P price * (Fin 1 + fee_rate P)"

definition entry_qty :: "params \<Rightarrow> dbl \<Rightarrow> state \<Rightarrow> dbl" where
  "entry_qty P price st = floor_d ((cash st / entry_denom P price) / lot_round) * lot_round"

definition entry_cash_after :: "params \<Rightarrow> dbl \<Rightarrow> state \<Rightarrow> dbl" where
  "entry_cash_after P price st =
     cash st - (entry_qty P price st * entry_fill_price P price
                + entry_qty P price st * entry_fill_price P price * fee_rate P)"

definition entered :: "params \<Rightarrow> dbl \<Rightarrow> state \<Rightarrow> dbl \<Rightarrow> state" where
  "entered P price st c =
     st\<lparr>cash := clamp_nonneg c, pos := entry_qty P price st, entry := entry_fill_price P price\<rparr>"

text \<open>
  The cash left as the code tests it: a negative residue of magnitude below \<open>1e-6\<close> is
  set to zero before the comparison with \<open>-1e-12\<close>.
\<close>

definition entry_new_cash :: "params \<Rightarrow> dbl \<Rightarrow> state \<Rightarrow> dbl" where
  "entry_new_cash P price st =
     (if entry_cash_after P price st < Fin 0 \<and> fabs (entry_cash_after P price st) < Fin (1 / 10 ^ 6)
      then Fin 0 else entry_cash_after P price st)"

text \<open>
  The two crossover conditions as the specification words them, on the averages \<open>f\<close>
  (fast) and \<open>s\<close> (slow) at index \<open>i\<close>: all four values defined, and the comparisons
  between their values.
\<close>

definition entry_signal_spec :: "dbl list \<Rightarrow> dbl list \<Rightarrow> nat \<Rightarrow> bool" where
  "entry_signal_spec f s i =
     (case (f ! (i - 1), s ! (i - 1), f ! i, s ! i) of
        (Fin a, Fin b, Fin c, Fin d) \<Rightarrow> a \<le> b \<and> d < c
      | _ \<Rightarrow> False)"

definition exit_signal_spec :: "dbl list \<Rightarrow> dbl list \<Rightarrow> nat \<Rightarrow> bool" where
  "exit_signal_spec f s i =
     (case (f ! (i - 1), s ! (i - 1), f ! i, s ! i) of
        (Fin a, Fin b, Fin c, Fin d) \<Rightarrow> b \<le> a \<and> c < d
      | _ \<Rightarrow> False)"

section \<open>The entry fill with rounding\<close>

text \<open>
  With exact arithmetic the quantity bought never costs more than the cash at hand, so
  the two tests of the entry fill on the cash left (lines 109 and 110) can only be
  reached through rounding. The entry fill is therefore given a second time with every
  arithmetic result rounded by a function \<open>r\<close>: \<open>radd\<close>, \<open>rsub\<close>, \<open>rmul\<close> and \<open>rdiv\<close>
  round the exact result, and \<open>lit r q\<close> is the double that a decimal literal \<open>q\<close> of the
  source denotes. \<open>floor\<close>, \<open>fabs\<close>, negation and the comparisons are exact on doubles,
  and so are the literals 0, 1 and 10000. With the identity for \<open>r\<close> this is
  \<open>entry_fill\<close>.
\<close>

fun rnd_d :: "(real \<Rightarrow> real) \<Rightarrow> dbl \<Rightarrow> dbl" where
  "rnd_d r (Fin a) = Fin (r a)"
| "rnd_d r NaN = NaN"

definition radd :: "(real \<Rightarrow> real) \<Rightarrow> dbl \<Rightarrow> dbl \<Rightarrow> dbl" where
  "radd r a b = rnd_d r (a + b)"

definition rsub :: "(real \<Rightarrow> real) \<Rightarrow> dbl \<Rightarrow> dbl \<Rightarrow> dbl" where
  "rsub r a b = rnd_d r (a - b)"

definition rmul :: "(real \<Rightarrow> real) \<Rightarrow> dbl \<Rightarrow> dbl \<Rightarrow> dbl" where
  "rmul r a b = rnd_d r (a * b)"

definition rdiv :: "(real \<Rightarrow> real) \<Rightarrow> dbl \<Rightarrow> dbl \<Rightarrow> dbl" where
  "rdiv r a b = rnd_d r (a / b)"

definition lit :: "(real \<Rightarrow> real) \<Rightarrow> real \<Rightarrow> dbl" where
  "lit r q = Fin (r q)"

text \<open>Lines 99 to 116 again, with rounding.\<close>

definition entry_fill_r :: "(real \<Rightarrow> real) \<Rightarrow> params \<Rightarrow> dbl \<Rightarrow> state \<Rightarrow> state" where
  "entry_fill_r r P price st =
     (let p_fill = rmul r price (radd r (Fin 1) (rdiv r (slip_bps P) (Fin 10000)));
          denom = rmul r p_fill (radd r (Fin 1) (fee_rate P))
      in if denom > lit r (1 / 10 ^ 12) then
           (let budget = cash st;
                qty = rmul r (floor_d (rdiv r (rdiv r budget denom) (lit r (1 / 10 ^ 8))))
                             (lit r (1 / 10 ^ 8))
            in if qty > Fin 0 then
                 (let cost = rmul r qty p_fill;
                      fee = rmul r cost (fee_rate P);
                      new_cash0 = rsub r budget (radd r cost fee);
                      new_cash = (if new_cash0 < Fin 0 \<and> fabs new_cash0 < lit r (1 / 10 ^ 6)
                                  then Fin 0 else new_cash0)
                  in if new_cash \<ge> - lit r (1 / 10 ^ 12)
                     then st\<lparr>cash := clamp_nonneg new_cash, pos := qty, entry := p_fill\<rparr>
                     else st)
               else st)
         else st)"

text \<open>
  The quantities of the rounded entry fill by name: fill price, denominator, quantity,
  cash left after cost and fee, and the cash left as line 110 tests it (a negative
  residue of magnitude below \<open>1e-6\<close> set to zero by line 109).
\<close>

definition entry_fill_price_r :: "(real \<Rightarrow> real) \<Rightarrow> params \<Rightarrow> dbl \<Rightarrow> dbl" where
  "entry_fill_price_r r P price =
     rmul r price (radd r (Fin 1) (rdiv r (slip_bps P) (Fin 10000)))"

definition entry_denom_r :: "(real \<Rightarrow> real) \<Rightarrow> params \<Rightarrow> dbl \<Rightarrow> dbl" where
  "entry_denom_r r P price = rmul r (entry_fill_price_r r P price) (radd r (Fin 1) (fee_rate P))"

definition entry_qty_r :: "(real \<Rightarrow> real) \<Rightarrow> params \<Rightarrow> dbl \<Rightarrow> state \<Rightarrow> dbl" where
  "entry_qty_r r P price st =
     rmul r (floor_d (rdiv r (rdiv r (cash st) (entry_denom_r r P price)) (lit r (1 / 10 ^ 8))))
            (lit r (1 / 10 ^ 8))"

definition entry_cash_after_r :: "(real \<Rightarrow> real) \<Rightarrow> params \<Rightarrow> dbl \<Rightarrow> state \<Rightarrow> dbl" where
  "entry_cash_after_r r P price st =
     rsub r (cash st)
       (radd r (rmul r (entry_qty_r r P price st) (entry_fill_price_r r P price))
               (rmul r (rmul r (entry_qty_r r P price st) (entry_fill_price_r r P price))
                       (fee_rate P)))"

definition entry_new_cash_r :: "(real \<Rightarrow> real) \<Rightarrow> params \<Rightarrow> dbl \<Rightarrow> state \<Rightarrow> dbl" where
  "entry_new_cash_r r P price st =
     (if entry_cash_after_r r P price st < Fin 0
         \<and> fabs (entry_cash_after_r r P price st) < lit r (1 / 10 ^ 6)
      then Fin 0 else entry_cash_after_r r P price st)"

definition entered_r :: "(real \<Rightarrow> real) \<Rightarrow> params \<Rightarrow> dbl \<Rightarrow> state \<Rightarrow> dbl \<Rightarrow> state" where
  "entered_r r P price st c =
     st\<lparr>cash := clamp_nonneg c, pos := entry_qty_r r P price st,
        entry := entry_fill_price_r r P price\<rparr>"

text \<open>
  The entry fill as the specification words it: skipped when the quantity is 0 or the
  cash left after cost and fee is below \<open>-1e-12\<close>, executed otherwise.
\<close>

definition entry_fill_spec_r :: "(real \<Rightarrow> real) \<Rightarrow> params \<Rightarrow> dbl \<Rightarrow> state \<Rightarrow> state" where
  "entry_fill_spec_r r P price st =
     (if entry_qty_r r P price st = Fin 0
         \<or> entry_cash_after_r r P price st < - lit r (1 / 10 ^ 12)
      then st
      else entered_r r P price st (entry_cash_after_r r P price st))"

text \<open>
  The rounding of binary64 (round to nearest, ties to even, 53 significant bits, and a
  fixed step of \<open>2^-1074\<close> below \<open>2^-1022\<close>). \<open>ilog2 a\<close> is the integer part of the binary
  logarithm of a positive \<open>a\<close>. Results of magnitude \<open>2^1024\<close> and above, where the
  machine gives an infinity, are outside this model.
\<close>

definition pow2 :: "int \<Rightarrow> real" where
  "pow2 k = (if 0 \<le> k then 2 ^ nat k else 1 / 2 ^ nat (- k))"

definition ilog2 :: "real \<Rightarrow> int" where
  "ilog2 a = (if 1 \<le> a then bitlen \<lfloor>a\<rfloor> - 1 else - bitlen (\<lceil>1 / a\<rceil> - 1))"

definition round_even :: "real \<Rightarrow> int" where
  "round_even y =
     (let m = \<lfloor>y\<rfloor>; d = y - of_int m
      in if d < 1 / 2 then m else if 1 / 2 < d then m + 1 else if even m then m else m + 1)"

definition b64 :: "real \<Rightarrow> real" where
  "b64 x =
     (if x = 0 then 0
      else (let a = \<bar>x\<bar>; e = max (ilog2 a) (- 1022); u = pow2 (e - 52)
            in sgn x * of_int (round_even (a / u)) * u))"

section \<open>Observation points of a run\<close>

text \<open>
  \<open>state_at P fast slow px m\<close> is the state at the head of iteration \<open>m\<close> of the loop of a
  run on \<open>px\<close>. The observation points of the run are the initial state, for every
  candle that is not skipped the states after the risk check, after the signal step and
  after the drawdown update, and the state after the forced liquidation.
\<close>

definition state_at :: "params \<Rightarrow> int \<Rightarrow> int \<Rightarrow> dbl list \<Rightarrow> nat \<Rightarrow> state" where
  "state_at P fast slow px m =
     run_loop P px (compute_sma px fast) (compute_sma px slow) m init_state"

definition candle_points ::
  "params \<Rightarrow> dbl list \<Rightarrow> dbl list \<Rightarrow> dbl list \<Rightarrow> nat \<Rightarrow> state \<Rightarrow> state list" where
  "candle_points P px f s i st =
     (let price = px ! i
      in if \<not> (price > Fin 0) then []
         else (let st1 = risk_check P price st;
                   st2 = signal_step P price (f ! (i - 1)) (s ! (i - 1)) (f ! i) (s ! i) st1
               in [st1, st2, mdd_update price st2]))"

definition observations :: "params \<Rightarrow> int \<Rightarrow> int \<Rightarrow> dbl list \<Rightarrow> state list" where
  "observations P fast slow px =
     init_state
     # concat (map (\<lambda>m. candle_points P px (compute_sma px fast) (compute_sma px slow) m
                          (state_at P fast slow px m))
                   [1..<length px])
     @ [simulate P fast slow px]"

section \<open>The invariant of the loop\<close>

text \<open>
  Cash and position are finite and not negative, the position is positive exactly when
  an entry price is recorded, a recorded entry price is not zero, and the maximum
  drawdown is a fraction between 0 and 1.
\<close>

definition state_inv :: "state \<Rightarrow> bool" where
  "state_inv st =
     (Fin 0 \<le> cash st \<and> Fin 0 \<le> pos st
      \<and> (Fin 0 < pos st) = (\<not> isnan (entry st)) \<and> entry st \<noteq> Fin 0
      \<and> Fin 0 \<le> maxdd st \<and> maxdd st \<le> Fin 1)"

section \<open>Properties of the moving average\<close>

lemma length_sma_loop: "length (sma_loop x w i s) = length x - i"
proof (induction x w i s rule: sma_loop.induct)
  case (1 x w i s)
  show ?case
  proof (cases "i < length x")
    case True
    with "1" show ?thesis by (subst sma_loop.simps) (simp add: Let_def)
  next
    case False
    then show ?thesis by (subst sma_loop.simps) simp
  qed
qed

lemma length_compute_sma: "length (compute_sma x w) = length x"
  by (simp add: compute_sma_def length_sma_loop)

section \<open>Properties of the simulation\<close>

subsection \<open>Comparisons and clamping\<close>

lemma le_dblE: "a \<le> b \<Longrightarrow> (\<And>x y. a = Fin x \<Longrightarrow> b = Fin y \<Longrightarrow> x \<le> y \<Longrightarrow> R) \<Longrightarrow> R" for a b :: dbl
  by (cases a; cases b) auto

lemma less_dblE: "a < b \<Longrightarrow> (\<And>x y. a = Fin x \<Longrightarrow> b = Fin y \<Longrightarrow> x < y \<Longrightarrow> R) \<Longrightarrow> R" for a b :: dbl
  by (cases a; cases b) auto

lemma clamp_nonneg_ge0: "Fin 0 \<le> clamp_nonneg x"
  by (cases x) (auto simp: clamp_nonneg_def)

lemma clamp_nonneg_id: "Fin 0 \<le> x \<Longrightarrow> clamp_nonneg x = x"
  by (cases x) (auto simp: clamp_nonneg_def)

lemma floor_lot_le:
  fixes a :: real
  shows "of_int \<lfloor>a / (1 / 10 ^ 8)\<rfloor> * (1 / 10 ^ 8) \<le> a"
proof -
  have "of_int \<lfloor>a / (1 / 10 ^ 8)\<rfloor> \<le> a / (1 / 10 ^ 8)" by (rule of_int_floor_le)
  then have "of_int \<lfloor>a / (1 / 10 ^ 8)\<rfloor> * (1 / 10 ^ 8) \<le> a / (1 / 10 ^ 8) * (1 / 10 ^ 8)"
    by (intro mult_right_mono) simp_all
  then show ?thesis by simp
qed

subsection \<open>What each step does to the fields\<close>

lemma exit_fill_fields:
  "Fin 0 \<le> cash (exit_fill P price st)" "pos (exit_fill P price st) = Fin 0"
  "entry (exit_fill P price st) = NaN" "peak (exit_fill P price st) = peak st"
  "maxdd (exit_fill P price st) = maxdd st" "trades (exit_fill P price st) = trades st + 1"
  by (simp_all add: exit_fill_def Let_def clamp_nonneg_ge0)

lemma entry_fill_cases:
  "entry_fill P price st = st \<or>
   (entry_fill P price st = entered P price st (entry_new_cash P price st)
    \<and> entry_denom P price > eps \<and> entry_qty P price st > Fin 0)"
  by (simp add: entry_fill_def entered_def entry_new_cash_def entry_cash_after_def
      entry_qty_def entry_denom_def entry_fill_price_def Let_def)

lemma entered_fields:
  "Fin 0 \<le> cash (entered P price st c)" "pos (entered P price st c) = entry_qty P price st"
  "entry (entered P price st c) = entry_fill_price P price" "peak (entered P price st c) = peak st"
  "maxdd (entered P price st c) = maxdd st" "trades (entered P price st c) = trades st"
  by (simp_all add: entered_def clamp_nonneg_ge0)

lemma denom_defined: "entry_denom P price > eps \<Longrightarrow> \<not> isnan (entry_fill_price P price)"
  by (cases "entry_fill_price P price"; cases "Fin 1 + fee_rate P") (auto simp: entry_denom_def eps_def)

lemma denom_nonzero: "entry_denom P price > eps \<Longrightarrow> entry_fill_price P price \<noteq> Fin 0"
  by (cases "Fin 1 + fee_rate P") (auto simp: entry_denom_def eps_def)

subsection \<open>The invariant holds at every observation point\<close>

lemma inv_init: "state_inv init_state"
  by (simp add: state_inv_def init_state_def initial_cash_def)

lemma inv_exit_fill: "state_inv st \<Longrightarrow> state_inv (exit_fill P price st)"
  by (simp add: state_inv_def exit_fill_fields)

lemma inv_entry_fill: "state_inv st \<Longrightarrow> state_inv (entry_fill P price st)"
  using entry_fill_cases [of P price st]
  by (auto simp: state_inv_def entered_fields denom_defined denom_nonzero elim: less_dblE)

lemma inv_risk_check: "state_inv st \<Longrightarrow> state_inv (risk_check P price st)"
  by (simp add: risk_check_def inv_exit_fill)

lemma inv_signal_step: "state_inv st \<Longrightarrow> state_inv (signal_step P price pf ps cf cs st)"
  by (simp add: signal_step_def inv_exit_fill inv_entry_fill split: action.splits)

lemma mdd_update_fields:
  "cash (mdd_update price st) = cash st" "pos (mdd_update price st) = pos st"
  "entry (mdd_update price st) = entry st" "trades (mdd_update price st) = trades st"
  by (simp_all add: mdd_update_def Let_def)

lemma mdd_update_maxdd:
  assumes "Fin 0 < price" "Fin 0 \<le> cash st" "Fin 0 \<le> pos st" "Fin 0 \<le> maxdd st" "maxdd st \<le> Fin 1"
  shows "maxdd st \<le> maxdd (mdd_update price st) \<and> maxdd (mdd_update price st) \<le> Fin 1"
proof -
  from assms(1) obtain p where p: "price = Fin p" "0 < p" by (auto elim: less_dblE)
  from assms(2) obtain c where c: "cash st = Fin c" "0 \<le> c" by (auto elim: le_dblE)
  from assms(3) obtain q where q: "pos st = Fin q" "0 \<le> q" by (auto elim: le_dblE)
  from assms(4,5) obtain d where d: "maxdd st = Fin d" "0 \<le> d" "d \<le> 1" by (auto elim!: le_dblE)
  define e where "e = c + q * p"
  have e: "cash st + pos st * price = Fin e" "0 \<le> e" using p c q by (simp_all add: e_def)
  have "\<exists>k. maxd (peak st) (Fin e) = Fin k \<and> e \<le> k"
    by (cases "peak st") (simp_all add: maxd_def)
  then obtain k where k: "maxd (peak st) (Fin e) = Fin k" "e \<le> k" by blast
  show ?thesis
  proof (cases "0 < k")
    case True
    have "(k - e) / k \<le> 1" using True e(2) by (simp add: divide_le_eq)
    then show ?thesis using True d k e by (simp add: mdd_update_def Let_def)
  next
    case False
    then show ?thesis using d k e by (simp add: mdd_update_def Let_def)
  qed
qed

lemma inv_mdd_update: "Fin 0 < price \<Longrightarrow> state_inv st \<Longrightarrow> state_inv (mdd_update price st)"
  using mdd_update_maxdd [of price st]
  by (auto simp: state_inv_def mdd_update_fields elim!: le_dblE)

lemma inv_candle: "state_inv st \<Longrightarrow> state_inv (candle P px f s i st)"
  by (simp add: candle_def Let_def inv_mdd_update inv_signal_step inv_risk_check)

lemma inv_foldl: "state_inv st \<Longrightarrow> state_inv (foldl (\<lambda>st i. candle P px f s i st) st js)"
  by (induction js arbitrary: st) (simp_all add: inv_candle)

lemma inv_run_loop: "state_inv st \<Longrightarrow> state_inv (run_loop P px f s m st)"
  by (simp add: run_loop_def inv_foldl)

lemma inv_state_at: "state_inv (state_at P fast slow px m)"
  by (simp add: state_at_def inv_run_loop inv_init)

lemma inv_liquidate: "state_inv st \<Longrightarrow> state_inv (liquidate P px st)"
  by (simp add: liquidate_def Let_def state_inv_def clamp_nonneg_ge0)

lemma inv_simulate: "state_inv (simulate P fast slow px)"
  by (simp add: simulate_def inv_liquidate inv_run_loop inv_init)

lemma inv_candle_points: "state_inv st \<Longrightarrow> st' \<in> set (candle_points P px f s i st) \<Longrightarrow> state_inv st'"
  by (auto simp: candle_points_def Let_def inv_mdd_update inv_signal_step inv_risk_check
      split: if_splits)

lemma inv_observations: "st \<in> set (observations P fast slow px) \<Longrightarrow> state_inv st"
  by (auto simp: observations_def inv_init inv_simulate intro: inv_candle_points [OF inv_state_at])

section \<open>The claims\<close>

subsection \<open>C1: the position when the final equity is computed\<close>

text \<open>
  When the last price is positive, the forced liquidation closes every open position, so
  the final equity is the cash of a liquidated portfolio.
\<close>

lemma position_closed_if_last_positive:
  assumes "Fin 0 < px ! (length px - 1)"
  shows "pos (simulate P fast slow px) = Fin 0"
proof -
  define st where "st = run_loop P px (compute_sma px fast) (compute_sma px slow) (length px) init_state"
  have "state_inv st" unfolding st_def by (simp add: inv_run_loop inv_init)
  then have "Fin 0 \<le> pos st" by (simp add: state_inv_def)
  then have "pos (liquidate P px st) = Fin 0"
    using assms by (cases "pos st") (auto simp: liquidate_def Let_def)
  then show ?thesis by (simp add: simulate_def st_def)
qed

text \<open>
  C1. The claim is that the position is closed whenever \<open>final_equity\<close> is computed,
  also when the last price is not positive or is \<open>NaN\<close>. On the series 2, 1, 4, \<open>NaN\<close>
  with windows 1 and 2 and no costs, the run buys 2500 units at the third candle, skips
  the last candle, skips the forced liquidation, and reports a final equity of 0 and a
  total return of -1 while the 2500 units are still held.
\<close>

theorem final_equity_open_position:
  "ma_cross_backtest [Fin 2, Fin 1, Fin 4, NaN] 1 2 (Fin 0) (Fin 0) (Fin (- 1)) (Fin (- 1))
     = Inr \<lparr>final_equity = Fin 0, total_return = Fin (- 1), max_drawdown = Fin 0,
            n_trades = 0, win_rate = Fin 0\<rparr>
   \<and> pos (simulate \<lparr>fee_rate = Fin 0, slip_bps = Fin 0, tp = Fin (- 1), sl = Fin (- 1)\<rparr>
             1 2 [Fin 2, Fin 1, Fin 4, NaN]) = Fin 2500"
  by code_simp

subsection \<open>C2: when an entry is skipped\<close>

text \<open>
  With exact arithmetic the quantity bought never costs more than the cash at hand: for
  a fee and a slippage that are not negative, a positive price and any finite cash, the
  cash left after cost and fee is not negative. The claim is therefore settled on the
  rounded entry fill.
\<close>

lemma entry_cash_after_nonneg:
  assumes "fee_rate P = Fin r" and "0 \<le> r" and "slip_bps P = Fin b" and "0 \<le> b"
    and "price = Fin p" and "0 < p" and "cash st = Fin c"
  shows "\<exists>k. entry_cash_after P price st = Fin k \<and> 0 \<le> k"
proof -
  define pf where "pf = p * (1 + b / 10000)"
  define d where "d = pf * (1 + r)"
  have pf: "0 < pf" unfolding pf_def using assms by (intro mult_pos_pos) (simp_all add: add_pos_nonneg)
  have d: "0 < d" unfolding d_def using pf assms by (intro mult_pos_pos) (simp_all add: add_pos_nonneg)
  have fp: "entry_fill_price P price = Fin pf" "entry_denom P price = Fin d"
    using assms by (simp_all add: entry_fill_price_def entry_denom_def pf_def d_def)
  define q where "q = of_int \<lfloor>(c / d) / (1 / 10 ^ 8)\<rfloor> * (1 / 10 ^ 8 :: real)"
  have q: "entry_qty P price st = Fin q"
    using assms fp d by (simp add: entry_qty_def lot_round_def q_def)
  have "q \<le> c / d" unfolding q_def by (rule floor_lot_le)
  then have "q * d \<le> c" using d by (simp add: pos_le_divide_eq)
  moreover have "q * pf + q * pf * r = q * d" by (simp add: d_def algebra_simps)
  ultimately have "0 \<le> c - (q * pf + q * pf * r)" by simp
  moreover have "entry_cash_after P price st = Fin (c - (q * pf + q * pf * r))"
    using assms fp q by (simp add: entry_cash_after_def)
  ultimately show ?thesis by blast
qed

text \<open>
  The rounded entry fill is the exact one when nothing is rounded, and it is a chain of
  three guards on its named quantities.
\<close>

lemma bitlen_numeral_step: "bitlen (numeral n) = bitlen (numeral n div 2) + 1"
  by (subst compute_bitlen) simp

lemma bitlen_1: "bitlen 1 = 1"
  by (subst compute_bitlen) simp

lemmas b64_eval = b64_def ilog2_def pow2_def round_even_def Let_def bitlen_numeral_step bitlen_1

lemmas rops = radd_def rsub_def rmul_def rdiv_def lit_def

lemma b64_literals:
  "b64 (12 / 10) = 5404319552844595 / 4503599627370496"
  "b64 (1 / 10 ^ 13) = 3961408125713217 / 39614081257132168796771975168"
  "b64 (1 / 1000) = 1152921504606847 / 1152921504606846976"
  "b64 (4 / 10000) = 7378697629483821 / 18446744073709551616"
  "b64 (1 / 10 ^ 12) = 4951760157141521 / 4951760157141521099596496896"
  "b64 (1 / 10 ^ 6) = 4722366482869645 / 4722366482869645213696"
  by (simp_all add: b64_eval)

lemma init_cash: "cash init_state = Fin 10000"
  by (simp add: init_state_def initial_cash_def)

lemma rnd_d_id: "rnd_d (\<lambda>x. x) d = d"
  by (cases d) simp_all

lemma entry_fill_r_exact: "entry_fill_r (\<lambda>x. x) P price st = entry_fill P price st"
  by (simp add: entry_fill_r_def entry_fill_def rops rnd_d_id eps_def lot_round_def Let_def)

lemma entry_fill_r_unfold:
  "entry_fill_r r P price st =
     (if \<not> (entry_denom_r r P price > lit r (1 / 10 ^ 12))
         \<or> \<not> (entry_qty_r r P price st > Fin 0)
         \<or> \<not> (entry_new_cash_r r P price st \<ge> - lit r (1 / 10 ^ 12))
      then st
      else entered_r r P price st (entry_new_cash_r r P price st))"
  by (simp add: entry_fill_r_def entered_r_def entry_new_cash_r_def entry_cash_after_r_def
      entry_qty_r_def entry_denom_r_def entry_fill_price_r_def Let_def)

text \<open>
  Three entry fills in binary64: cash \<open>2.5e13\<close> at price 1.2 without costs; the initial
  cash at price \<open>1e-13\<close> without costs; the initial cash at price 0.001 with the default
  fee and slippage.
\<close>

lemma big_price:
  "entry_fill_price_r b64 \<lparr>fee_rate = Fin 0, slip_bps = Fin 0, tp = Fin (- 1), sl = Fin (- 1)\<rparr>
     (Fin (5404319552844595 / 4503599627370496)) = Fin (5404319552844595 / 4503599627370496)"
  by (simp add: entry_fill_price_r_def rops b64_eval)

lemma big_denom:
  "entry_denom_r b64 \<lparr>fee_rate = Fin 0, slip_bps = Fin 0, tp = Fin (- 1), sl = Fin (- 1)\<rparr>
     (Fin (5404319552844595 / 4503599627370496)) = Fin (5404319552844595 / 4503599627370496)"
  by (simp add: entry_denom_r_def big_price rops b64_eval)

lemma big_qty:
  "entry_qty_r b64 \<lparr>fee_rate = Fin 0, slip_bps = Fin 0, tp = Fin (- 1), sl = Fin (- 1)\<rparr>
     (Fin (5404319552844595 / 4503599627370496)) (init_state\<lparr>cash := Fin 25000000000000\<rparr>) = Fin (2666666666666667 / 128)"
  by (simp add: entry_qty_r_def big_denom rops b64_eval init_cash)

lemma big_cash_after:
  "entry_cash_after_r b64 \<lparr>fee_rate = Fin 0, slip_bps = Fin 0, tp = Fin (- 1), sl = Fin (- 1)\<rparr>
     (Fin (5404319552844595 / 4503599627370496)) (init_state\<lparr>cash := Fin 25000000000000\<rparr>) = Fin (- (1 / 256))"
  by (simp add: entry_cash_after_r_def big_qty big_price rops b64_eval init_cash)

lemma tiny_price:
  "entry_fill_price_r b64 \<lparr>fee_rate = Fin 0, slip_bps = Fin 0, tp = Fin (- 1), sl = Fin (- 1)\<rparr>
     (Fin (3961408125713217 / 39614081257132168796771975168)) = Fin (3961408125713217 / 39614081257132168796771975168)"
  by (simp add: entry_fill_price_r_def rops b64_eval)

lemma tiny_denom:
  "entry_denom_r b64 \<lparr>fee_rate = Fin 0, slip_bps = Fin 0, tp = Fin (- 1), sl = Fin (- 1)\<rparr>
     (Fin (3961408125713217 / 39614081257132168796771975168)) = Fin (3961408125713217 / 39614081257132168796771975168)"
  by (simp add: entry_denom_r_def tiny_price rops b64_eval)

lemma tiny_qty:
  "entry_qty_r b64 \<lparr>fee_rate = Fin 0, slip_bps = Fin 0, tp = Fin (- 1), sl = Fin (- 1)\<rparr>
     (Fin (3961408125713217 / 39614081257132168796771975168)) init_state = Fin (99999999999999984)"
  by (simp add: entry_qty_r_def tiny_denom rops b64_eval init_cash)

lemma tiny_cash_after:
  "entry_cash_after_r b64 \<lparr>fee_rate = Fin 0, slip_bps = Fin 0, tp = Fin (- 1), sl = Fin (- 1)\<rparr>
     (Fin (3961408125713217 / 39614081257132168796771975168)) init_state = Fin (1 / 549755813888)"
  by (simp add: entry_cash_after_r_def tiny_qty tiny_price rops b64_eval init_cash)

lemma dflt_price:
  "entry_fill_price_r b64 \<lparr>fee_rate = Fin (7378697629483821 / 18446744073709551616), slip_bps = Fin 1, tp = Fin (- 1), sl = Fin (- 1)\<rparr>
     (Fin (1152921504606847 / 1152921504606846976)) = Fin (4612147187029231 / 4611686018427387904)"
  by (simp add: entry_fill_price_r_def rops b64_eval)

lemma dflt_denom:
  "entry_denom_r b64 \<lparr>fee_rate = Fin (7378697629483821 / 18446744073709551616), slip_bps = Fin 1, tp = Fin (- 1), sl = Fin (- 1)\<rparr>
     (Fin (1152921504606847 / 1152921504606846976)) = Fin (2306996022952021 / 2305843009213693952)"
  by (simp add: entry_denom_r_def dflt_price rops b64_eval)

lemma dflt_qty:
  "entry_qty_r b64 \<lparr>fee_rate = Fin (7378697629483821 / 18446744073709551616), slip_bps = Fin 1, tp = Fin (- 1), sl = Fin (- 1)\<rparr>
     (Fin (1152921504606847 / 1152921504606846976)) init_state = Fin (2683012946206379 / 268435456)"
  by (simp add: entry_qty_r_def dflt_denom rops b64_eval init_cash)

lemma dflt_cash_after:
  "entry_cash_after_r b64 \<lparr>fee_rate = Fin (7378697629483821 / 18446744073709551616), slip_bps = Fin 1, tp = Fin (- 1), sl = Fin (- 1)\<rparr>
     (Fin (1152921504606847 / 1152921504606846976)) init_state = Fin (- (1 / 549755813888))"
  by (simp add: entry_cash_after_r_def dflt_qty dflt_price rops b64_eval init_cash)

text \<open>
  C2, as stated, fails twice (binary64 arithmetic). At a price of \<open>1e-13\<close> without costs
  and with the initial cash, the quantity would be about \<open>1e17\<close> and the cash left
  \<open>2^-39\<close>, so by the claim's two conditions the entry would execute, but the code skips
  it because fill price times \<open>1 + fee_rate\<close> is not above \<open>1e-12\<close>. At a price of 0.001
  with the default fee \<open>0.0004\<close> and slippage 1 the cash left after cost and fee is
  \<open>-2^-39\<close>, about \<open>-1.8e-12\<close>, which is below \<open>-1e-12\<close>, so by the claim the entry
  would be skipped, but the code sets the residue to 0 and buys about 9995002.1 units.
\<close>

theorem entry_fill_claim_fails:
  "entry_fill_r b64 \<lparr>fee_rate = Fin 0, slip_bps = Fin 0, tp = Fin (- 1), sl = Fin (- 1)\<rparr>
       (Fin (b64 (1 / 10 ^ 13))) init_state = init_state
   \<and> entry_fill_spec_r b64 \<lparr>fee_rate = Fin 0, slip_bps = Fin 0, tp = Fin (- 1), sl = Fin (- 1)\<rparr>
       (Fin (b64 (1 / 10 ^ 13))) init_state
     = init_state\<lparr>cash := Fin (1 / 2 ^ 39), pos := Fin 99999999999999984,
                   entry := Fin (b64 (1 / 10 ^ 13))\<rparr>
   \<and> entry_cash_after_r b64
       \<lparr>fee_rate = Fin (b64 (4 / 10000)), slip_bps = Fin 1, tp = Fin (- 1), sl = Fin (- 1)\<rparr>
       (Fin (b64 (1 / 1000))) init_state = Fin (- (1 / 2 ^ 39))
   \<and> entry_fill_spec_r b64
       \<lparr>fee_rate = Fin (b64 (4 / 10000)), slip_bps = Fin 1, tp = Fin (- 1), sl = Fin (- 1)\<rparr>
       (Fin (b64 (1 / 1000))) init_state = init_state
   \<and> entry_fill_r b64
       \<lparr>fee_rate = Fin (b64 (4 / 10000)), slip_bps = Fin 1, tp = Fin (- 1), sl = Fin (- 1)\<rparr>
       (Fin (b64 (1 / 1000))) init_state
     = init_state\<lparr>cash := Fin 0, pos := Fin (2683012946206379 / 268435456),
                   entry := Fin (4612147187029231 / 4611686018427387904)\<rparr>"
proof (intro conjI)
  show "entry_fill_r b64 \<lparr>fee_rate = Fin 0, slip_bps = Fin 0, tp = Fin (- 1), sl = Fin (- 1)\<rparr>
       (Fin (b64 (1 / 10 ^ 13))) init_state = init_state"
    by (simp add: entry_fill_r_unfold tiny_denom lit_def b64_eval)
  show "entry_fill_spec_r b64 \<lparr>fee_rate = Fin 0, slip_bps = Fin 0, tp = Fin (- 1), sl = Fin (- 1)\<rparr>
       (Fin (b64 (1 / 10 ^ 13))) init_state
     = init_state\<lparr>cash := Fin (1 / 2 ^ 39), pos := Fin 99999999999999984,
                   entry := Fin (b64 (1 / 10 ^ 13))\<rparr>"
    by (simp add: entry_fill_spec_r_def entered_r_def tiny_qty tiny_cash_after tiny_price
        lit_def b64_eval clamp_nonneg_def)
  show "entry_cash_after_r b64
       \<lparr>fee_rate = Fin (b64 (4 / 10000)), slip_bps = Fin 1, tp = Fin (- 1), sl = Fin (- 1)\<rparr>
       (Fin (b64 (1 / 1000))) init_state = Fin (- (1 / 2 ^ 39))"
    by (simp add: dflt_cash_after b64_eval)
  show "entry_fill_spec_r b64
       \<lparr>fee_rate = Fin (b64 (4 / 10000)), slip_bps = Fin 1, tp = Fin (- 1), sl = Fin (- 1)\<rparr>
       (Fin (b64 (1 / 1000))) init_state = init_state"
    by (simp add: entry_fill_spec_r_def dflt_qty dflt_cash_after lit_def b64_eval)
  show "entry_fill_r b64
       \<lparr>fee_rate = Fin (b64 (4 / 10000)), slip_bps = Fin 1, tp = Fin (- 1), sl = Fin (- 1)\<rparr>
       (Fin (b64 (1 / 1000))) init_state
     = init_state\<lparr>cash := Fin 0, pos := Fin (2683012946206379 / 268435456),
                   entry := Fin (4612147187029231 / 4611686018427387904)\<rparr>"
    by (simp add: entry_fill_r_unfold entered_r_def entry_new_cash_r_def dflt_denom dflt_qty
        dflt_cash_after dflt_price lit_def b64_eval clamp_nonneg_def)
qed

text \<open>
  C2, amended. An entry fill is skipped, and the state unchanged, exactly when fill price
  times \<open>1 + fee_rate\<close> is not above \<open>1e-12\<close>, or the quantity is not positive, or the
  cash left after cost and fee (a negative residue of magnitude below \<open>1e-6\<close> first set
  to 0) is not at least \<open>-1e-12\<close>. Otherwise the entry executes: cash is the clamped
  cash left, the position is the quantity, the entry price is the fill price. This holds
  for every rounding of the arithmetic, and the entry fill of the loop model is the
  instance without rounding.
\<close>

theorem entry_fill_guards:
  "entry_fill_r r P price st =
     (if \<not> (entry_denom_r r P price > lit r (1 / 10 ^ 12))
         \<or> \<not> (entry_qty_r r P price st > Fin 0)
         \<or> \<not> (entry_new_cash_r r P price st \<ge> - lit r (1 / 10 ^ 12))
      then st
      else entered_r r P price st (entry_new_cash_r r P price st))
   \<and> entry_fill P price st = entry_fill_r (\<lambda>x. x) P price st"
  by (rule conjI, rule entry_fill_r_unfold, rule entry_fill_r_exact [symmetric])

theorem entry_fill_guards_witness:
  "lit b64 (1 / 10 ^ 12)
     < entry_denom_r b64 \<lparr>fee_rate = Fin 0, slip_bps = Fin 0, tp = Fin (- 1), sl = Fin (- 1)\<rparr>
         (Fin (b64 (12 / 10)))
   \<and> Fin 0 < entry_qty_r b64 \<lparr>fee_rate = Fin 0, slip_bps = Fin 0, tp = Fin (- 1), sl = Fin (- 1)\<rparr>
         (Fin (b64 (12 / 10))) (init_state\<lparr>cash := Fin 25000000000000\<rparr>)
   \<and> entry_new_cash_r b64 \<lparr>fee_rate = Fin 0, slip_bps = Fin 0, tp = Fin (- 1), sl = Fin (- 1)\<rparr>
         (Fin (b64 (12 / 10))) (init_state\<lparr>cash := Fin 25000000000000\<rparr>) = Fin (- (1 / 256))
   \<and> entry_fill_r b64 \<lparr>fee_rate = Fin 0, slip_bps = Fin 0, tp = Fin (- 1), sl = Fin (- 1)\<rparr>
         (Fin (b64 (12 / 10))) (init_state\<lparr>cash := Fin 25000000000000\<rparr>)
       = init_state\<lparr>cash := Fin 25000000000000\<rparr>"
proof -
  let ?P = "\<lparr>fee_rate = Fin 0, slip_bps = Fin 0, tp = Fin (- 1), sl = Fin (- 1)\<rparr>"
  let ?st = "init_state\<lparr>cash := Fin 25000000000000\<rparr>"
  have g1: "lit b64 (1 / 10 ^ 12) < entry_denom_r b64 ?P (Fin (b64 (12 / 10)))"
    by (simp add: big_denom lit_def b64_eval)
  have g2: "Fin 0 < entry_qty_r b64 ?P (Fin (b64 (12 / 10))) ?st"
    by (simp add: big_qty b64_eval)
  have v: "entry_new_cash_r b64 ?P (Fin (b64 (12 / 10))) ?st = Fin (- (1 / 256))"
    by (simp add: entry_new_cash_r_def big_cash_after lit_def b64_eval)
  have n: "\<not> - lit b64 (1 / 10 ^ 12) \<le> entry_new_cash_r b64 ?P (Fin (b64 (12 / 10))) ?st"
    unfolding v by (simp add: lit_def b64_eval)
  from entry_fill_guards [of b64 ?P "Fin (b64 (12 / 10))" ?st] n
  have "entry_fill_r b64 ?P (Fin (b64 (12 / 10))) ?st = ?st" by simp
  with g1 g2 v show ?thesis by simp
qed

subsection \<open>C3: the moving average\<close>

text \<open>
  C3. The claim is that entry \<open>i\<close> of the moving average is the mean of
  \<open>prices[i - w + 1 .. i]\<close> for every price series. The running sum of \<open>compute_sma\<close>
  stays \<open>NaN\<close> from the first \<open>NaN\<close> price on: on 1, \<open>NaN\<close>, 2, 3 with window 2 every
  entry is \<open>NaN\<close>, also entry 3, whose window 2, 3 has the mean 5/2. A run on
  2, \<open>NaN\<close>, 2, 1, 4, 8 with windows 1 and 2 skips the \<open>NaN\<close> candle and goes on, but its
  slow average is \<open>NaN\<close> throughout, so the upward cross of the specified averages at
  candle 4 is never seen and the run ends without a trade.
\<close>

theorem compute_sma_nan_propagates:
  "compute_sma [Fin 1, NaN, Fin 2, Fin 3] 2 = [NaN, NaN, NaN, NaN]
   \<and> sma_spec [Fin 1, NaN, Fin 2, Fin 3] 2 3 = Fin (5 / 2)
   \<and> compute_sma [Fin 2, NaN, Fin 2, Fin 1, Fin 4, Fin 8] 2 = [NaN, NaN, NaN, NaN, NaN, NaN]
   \<and> entry_signal_spec [Fin 2, NaN, Fin 2, Fin 1, Fin 4, Fin 8]
        (map (sma_spec [Fin 2, NaN, Fin 2, Fin 1, Fin 4, Fin 8] 2) [0..<6]) 4
   \<and> ma_cross_backtest [Fin 2, NaN, Fin 2, Fin 1, Fin 4, Fin 8] 1 2 (Fin 0) (Fin 0)
        (Fin (- 1)) (Fin (- 1))
      = Inr \<lparr>final_equity = Fin 10000, total_return = Fin 0, max_drawdown = Fin 0,
             n_trades = 0, win_rate = Fin 0\<rparr>"
proof (intro conjI)
  show "compute_sma [Fin 1, NaN, Fin 2, Fin 3] 2 = [NaN, NaN, NaN, NaN]" by code_simp
  show "sma_spec [Fin 1, NaN, Fin 2, Fin 3] 2 3 = Fin (5 / 2)" by code_simp
  show "compute_sma [Fin 2, NaN, Fin 2, Fin 1, Fin 4, Fin 8] 2 = [NaN, NaN, NaN, NaN, NaN, NaN]"
    by code_simp
  show "entry_signal_spec [Fin 2, NaN, Fin 2, Fin 1, Fin 4, Fin 8]
        (map (sma_spec [Fin 2, NaN, Fin 2, Fin 1, Fin 4, Fin 8] 2) [0..<6]) 4"
    by code_simp
  show "ma_cross_backtest [Fin 2, NaN, Fin 2, Fin 1, Fin 4, Fin 8] 1 2 (Fin 0) (Fin 0)
        (Fin (- 1)) (Fin (- 1))
      = Inr \<lparr>final_equity = Fin 10000, total_return = Fin 0, max_drawdown = Fin 0,
             n_trades = 0, win_rate = Fin 0\<rparr>"
    by code_simp
qed

subsection \<open>C4: the crossover signals\<close>

lemma long_entry_spec:
  "long_entry (f ! (i - 1)) (s ! (i - 1)) (f ! i) (s ! i) = entry_signal_spec f s i"
  by (cases "f ! (i - 1)"; cases "s ! (i - 1)"; cases "f ! i"; cases "s ! i")
     (simp_all add: long_entry_def entry_signal_spec_def)

lemma long_exit_spec:
  "long_exit (f ! (i - 1)) (s ! (i - 1)) (f ! i) (s ! i) = exit_signal_spec f s i"
  by (cases "f ! (i - 1)"; cases "s ! (i - 1)"; cases "f ! i"; cases "s ! i")
     (simp_all add: long_exit_def exit_signal_spec_def)

text \<open>
  C4, as stated, fails at a candle that is skipped for its price. On 2, 1, 4, 0, 8, 8
  with windows 1 and 2 the run holds 2500 units at the head of candle 3; there all four
  averages are defined with \<open>f[2] = 4 \<ge> s[2] = 2.5\<close> and \<open>f[3] = 0 < s[3] = 2\<close>, but
  the price 0 makes the candle a no-op: no signal is computed and the state is unchanged.
\<close>

theorem cross_on_skipped_candle:
  "exit_signal_spec (compute_sma [Fin 2, Fin 1, Fin 4, Fin 0, Fin 8, Fin 8] 1)
       (compute_sma [Fin 2, Fin 1, Fin 4, Fin 0, Fin 8, Fin 8] 2) 3
   \<and> pos (state_at \<lparr>fee_rate = Fin 0, slip_bps = Fin 0, tp = Fin (- 1), sl = Fin (- 1)\<rparr> 1 2
            [Fin 2, Fin 1, Fin 4, Fin 0, Fin 8, Fin 8] 3) = Fin 2500
   \<and> candle \<lparr>fee_rate = Fin 0, slip_bps = Fin 0, tp = Fin (- 1), sl = Fin (- 1)\<rparr>
        [Fin 2, Fin 1, Fin 4, Fin 0, Fin 8, Fin 8]
        (compute_sma [Fin 2, Fin 1, Fin 4, Fin 0, Fin 8, Fin 8] 1)
        (compute_sma [Fin 2, Fin 1, Fin 4, Fin 0, Fin 8, Fin 8] 2) 3
        (state_at \<lparr>fee_rate = Fin 0, slip_bps = Fin 0, tp = Fin (- 1), sl = Fin (- 1)\<rparr> 1 2
            [Fin 2, Fin 1, Fin 4, Fin 0, Fin 8, Fin 8] 3)
      = state_at \<lparr>fee_rate = Fin 0, slip_bps = Fin 0, tp = Fin (- 1), sl = Fin (- 1)\<rparr> 1 2
            [Fin 2, Fin 1, Fin 4, Fin 0, Fin 8, Fin 8] 3"
proof (intro conjI)
  show "exit_signal_spec (compute_sma [Fin 2, Fin 1, Fin 4, Fin 0, Fin 8, Fin 8] 1)
       (compute_sma [Fin 2, Fin 1, Fin 4, Fin 0, Fin 8, Fin 8] 2) 3"
    by code_simp
  show "pos (state_at \<lparr>fee_rate = Fin 0, slip_bps = Fin 0, tp = Fin (- 1), sl = Fin (- 1)\<rparr> 1 2
            [Fin 2, Fin 1, Fin 4, Fin 0, Fin 8, Fin 8] 3) = Fin 2500"
    by code_simp
  show "candle \<lparr>fee_rate = Fin 0, slip_bps = Fin 0, tp = Fin (- 1), sl = Fin (- 1)\<rparr>
        [Fin 2, Fin 1, Fin 4, Fin 0, Fin 8, Fin 8]
        (compute_sma [Fin 2, Fin 1, Fin 4, Fin 0, Fin 8, Fin 8] 1)
        (compute_sma [Fin 2, Fin 1, Fin 4, Fin 0, Fin 8, Fin 8] 2) 3
        (state_at \<lparr>fee_rate = Fin 0, slip_bps = Fin 0, tp = Fin (- 1), sl = Fin (- 1)\<rparr> 1 2
            [Fin 2, Fin 1, Fin 4, Fin 0, Fin 8, Fin 8] 3)
      = state_at \<lparr>fee_rate = Fin 0, slip_bps = Fin 0, tp = Fin (- 1), sl = Fin (- 1)\<rparr> 1 2
            [Fin 2, Fin 1, Fin 4, Fin 0, Fin 8, Fin 8] 3"
    by (simp add: candle_def Let_def)
qed

text \<open>
  C4, amended. At every candle index \<open>i \<ge> 1\<close> whose price is positive, after the risk
  check the loop attempts an entry exactly when all four of \<open>f[i-1]\<close>, \<open>s[i-1]\<close>,
  \<open>f[i]\<close>, \<open>s[i]\<close> are defined with \<open>f[i-1] \<le> s[i-1]\<close> and \<open>f[i] > s[i]\<close> and the state
  is flat, and otherwise exits exactly when all four are defined with
  \<open>f[i-1] \<ge> s[i-1]\<close> and \<open>f[i] < s[i]\<close> and a position is held; with an undefined
  value neither happens. At a candle whose price is not positive or is \<open>NaN\<close> no signal is
  considered and the state is unchanged. The two signal expressions of lines 95 and 96
  are these two conditions.
\<close>

theorem candle_signals:
  "candle P px f s i st =
     (if Fin 0 < px ! i then
        (let st1 = risk_check P (px ! i) st
         in mdd_update (px ! i)
              (if entry_signal_spec f s i \<and> pos st1 \<le> Fin 0 then entry_fill P (px ! i) st1
               else if exit_signal_spec f s i \<and> Fin 0 < pos st1 then exit_fill P (px ! i) st1
               else st1))
      else st)
   \<and> long_entry (f ! (i - 1)) (s ! (i - 1)) (f ! i) (s ! i) = entry_signal_spec f s i
   \<and> long_exit (f ! (i - 1)) (s ! (i - 1)) (f ! i) (s ! i) = exit_signal_spec f s i"
proof -
  have c: "candle P px f s i st =
     (if Fin 0 < px ! i then
        (let st1 = risk_check P (px ! i) st
         in mdd_update (px ! i)
              (if entry_signal_spec f s i \<and> pos st1 \<le> Fin 0 then entry_fill P (px ! i) st1
               else if exit_signal_spec f s i \<and> Fin 0 < pos st1 then exit_fill P (px ! i) st1
               else st1))
      else st)"
    unfolding candle_def signal_step_def signal_action_def long_entry_spec long_exit_spec
    by (simp add: Let_def)
  show ?thesis using c long_entry_spec [of f i s] long_exit_spec [of f i s] by blast
qed

theorem candle_signals_witness:
  "Fin 0 < [Fin 2, Fin 2, Fin 6] ! 2
   \<and> entry_signal_spec [Fin 2, Fin 2, Fin 6] [NaN, Fin 2, Fin 4] 2
   \<and> candle \<lparr>fee_rate = Fin 0, slip_bps = Fin 0, tp = Fin (- 1), sl = Fin (- 1)\<rparr>
        [Fin 2, Fin 2, Fin 6] [Fin 2, Fin 2, Fin 6] [NaN, Fin 2, Fin 4] 2 init_state
      = mdd_update (Fin 6)
          (entry_fill \<lparr>fee_rate = Fin 0, slip_bps = Fin 0, tp = Fin (- 1), sl = Fin (- 1)\<rparr> (Fin 6) init_state)
   \<and> candle \<lparr>fee_rate = Fin 0, slip_bps = Fin 0, tp = Fin (- 1), sl = Fin (- 1)\<rparr>
        [Fin 2, Fin 2, Fin 6] [Fin 2, Fin 2, Fin 6] [NaN, Fin 2, Fin 4] 1 init_state
      = mdd_update (Fin 2) init_state"
proof -
  let ?P = "\<lparr>fee_rate = Fin 0, slip_bps = Fin 0, tp = Fin (- 1), sl = Fin (- 1)\<rparr>"
  have e: "entry_signal_spec [Fin 2, Fin 2, Fin 6] [NaN, Fin 2, Fin 4] 2"
    "\<not> entry_signal_spec [Fin 2, Fin 2, Fin 6] [NaN, Fin 2, Fin 4] 1"
    "\<not> exit_signal_spec [Fin 2, Fin 2, Fin 6] [NaN, Fin 2, Fin 4] 1"
    by (simp_all add: entry_signal_spec_def exit_signal_spec_def)
  have r: "risk_check ?P price init_state = init_state" for price
    by (simp add: risk_check_def init_state_def)
  have p: "pos init_state \<le> Fin 0" by (simp add: init_state_def)
  show ?thesis
    using candle_signals [of ?P "[Fin 2, Fin 2, Fin 6]" "[Fin 2, Fin 2, Fin 6]" "[NaN, Fin 2, Fin 4]" 2 init_state]
      candle_signals [of ?P "[Fin 2, Fin 2, Fin 6]" "[Fin 2, Fin 2, Fin 6]" "[NaN, Fin 2, Fin 4]" 1 init_state]
      e r p
    by simp
qed

subsection \<open>C5: the risk exit comes first\<close>

text \<open>
  C5. When the risk exit fires on a candle (the price is positive, a position is open,
  and take profit or stop loss is hit), the candle is the exit fill at that price
  followed by the signal step on the flat state it leaves: an entry fill when the
  long-entry signal holds, nothing otherwise, and then the drawdown update. The signal
  step does not take its exit branch, and the candle closes exactly one trade.
\<close>

theorem risk_exit_first:
  assumes "Fin 0 < px ! i" and "Fin 0 < pos st" and "\<not> isnan (entry st)"
    and "risk_hit P (px ! i) st"
  shows "candle P px f s i st
      = mdd_update (px ! i)
          (signal_step P (px ! i) (f ! (i - 1)) (s ! (i - 1)) (f ! i) (s ! i)
             (exit_fill P (px ! i) st))
    \<and> candle P px f s i st
      = mdd_update (px ! i)
          (if long_entry (f ! (i - 1)) (s ! (i - 1)) (f ! i) (s ! i)
           then entry_fill P (px ! i) (exit_fill P (px ! i) st)
           else exit_fill P (px ! i) st)
    \<and> signal_action (f ! (i - 1)) (s ! (i - 1)) (f ! i) (s ! i) (exit_fill P (px ! i) st)
        \<noteq> SignalExit
    \<and> trades (candle P px f s i st) = trades st + 1"
proof -
  have rc: "risk_check P (px ! i) st = exit_fill P (px ! i) st"
    using assms by (simp add: risk_check_def)
  have flat: "pos (exit_fill P (px ! i) st) = Fin 0" by (rule exit_fill_fields)
  have c: "candle P px f s i st
      = mdd_update (px ! i)
          (if long_entry (f ! (i - 1)) (s ! (i - 1)) (f ! i) (s ! i)
           then entry_fill P (px ! i) (exit_fill P (px ! i) st)
           else exit_fill P (px ! i) st)"
    using assms(1) by (simp add: candle_def Let_def rc signal_step_def signal_action_def flat)
  have c0: "candle P px f s i st
      = mdd_update (px ! i)
          (signal_step P (px ! i) (f ! (i - 1)) (s ! (i - 1)) (f ! i) (s ! i)
             (exit_fill P (px ! i) st))"
    using assms(1) by (simp add: candle_def Let_def rc)
  have act: "signal_action (f ! (i - 1)) (s ! (i - 1)) (f ! i) (s ! i) (exit_fill P (px ! i) st)
      \<noteq> SignalExit"
    by (simp add: signal_action_def flat)
  have "trades (entry_fill P (px ! i) (exit_fill P (px ! i) st)) = trades (exit_fill P (px ! i) st)"
    using entry_fill_cases [of P "px ! i" "exit_fill P (px ! i) st"]
    by (auto simp: entered_fields)
  then have "trades (candle P px f s i st) = trades st + 1"
    unfolding c by (simp add: mdd_update_fields exit_fill_fields)
  with c0 c act show ?thesis by simp
qed

theorem risk_exit_first_witness:
  "Fin 0 < [Fin 4, Fin 5] ! 1
   \<and> Fin 0 < pos \<lparr>cash = Fin 0, pos = Fin 2500, entry = Fin 4, peak = Fin 10000, maxdd = Fin 0, trades = 0, wins = 0\<rparr>
   \<and> \<not> isnan (entry \<lparr>cash = Fin 0, pos = Fin 2500, entry = Fin 4, peak = Fin 10000, maxdd = Fin 0, trades = 0, wins = 0\<rparr>)
   \<and> risk_hit \<lparr>fee_rate = Fin 0, slip_bps = Fin 0, tp = Fin (2 / 100), sl = Fin (- 1)\<rparr> ([Fin 4, Fin 5] ! 1)
        \<lparr>cash = Fin 0, pos = Fin 2500, entry = Fin 4, peak = Fin 10000, maxdd = Fin 0, trades = 0, wins = 0\<rparr>
   \<and> long_entry ([Fin 1, Fin 3] ! (1 - 1)) ([Fin 2, Fin 2] ! (1 - 1)) ([Fin 1, Fin 3] ! 1) ([Fin 2, Fin 2] ! 1)
   \<and> candle \<lparr>fee_rate = Fin 0, slip_bps = Fin 0, tp = Fin (2 / 100), sl = Fin (- 1)\<rparr>
        [Fin 4, Fin 5] [Fin 1, Fin 3] [Fin 2, Fin 2] 1
        \<lparr>cash = Fin 0, pos = Fin 2500, entry = Fin 4, peak = Fin 10000, maxdd = Fin 0, trades = 0, wins = 0\<rparr>
      = \<lparr>cash = Fin 0, pos = Fin 2500, entry = Fin 5, peak = Fin 12500, maxdd = Fin 0, trades = 1, wins = 1\<rparr>"
proof -
  let ?P = "\<lparr>fee_rate = Fin 0, slip_bps = Fin 0, tp = Fin (2 / 100), sl = Fin (- 1)\<rparr>"
  let ?st = "\<lparr>cash = Fin 0, pos = Fin 2500, entry = Fin 4, peak = Fin 10000, maxdd = Fin 0, trades = 0, wins = 0\<rparr>"
  have h1: "Fin 0 < [Fin 4, Fin 5] ! 1" by simp
  have h2: "Fin 0 < pos ?st" by simp
  have h3: "\<not> isnan (entry ?st)" by simp
  have h4: "risk_hit ?P ([Fin 4, Fin 5] ! 1) ?st" by (simp add: risk_hit_def)
  have h5: "long_entry ([Fin 1, Fin 3] ! (1 - 1)) ([Fin 2, Fin 2] ! (1 - 1)) ([Fin 1, Fin 3] ! 1) ([Fin 2, Fin 2] ! 1)"
    by (simp add: long_entry_def)
  have v: "mdd_update (Fin 5) (entry_fill ?P (Fin 5) (exit_fill ?P (Fin 5) ?st))
      = \<lparr>cash = Fin 0, pos = Fin 2500, entry = Fin 5, peak = Fin 12500, maxdd = Fin 0, trades = 1, wins = 1\<rparr>"
    by code_simp
  note second =
    risk_exit_first [OF h1 h2 h3 h4, of "[Fin 1, Fin 3]" "[Fin 2, Fin 2]",
      THEN conjunct2, THEN conjunct1]
  from second h5
  have "candle ?P [Fin 4, Fin 5] [Fin 1, Fin 3] [Fin 2, Fin 2] 1 ?st
      = mdd_update (Fin 5) (entry_fill ?P (Fin 5) (exit_fill ?P (Fin 5) ?st))"
    by simp
  with h1 h2 h3 h4 h5 v show ?thesis by simp
qed

subsection \<open>C6: cash is never negative\<close>

text \<open>
  C6. For every input, at every observation point of the run (the initial state, after
  the risk check, the signal step and the drawdown update of every candle, and after the
  forced liquidation), cash is a finite value that is not negative; the clamp applied
  after every fill sends a negative or undefined amount to 0.
\<close>

theorem cash_never_negative:
  "(\<forall>st \<in> set (observations P fast slow px). Fin 0 \<le> cash st)
   \<and> clamp_nonneg NaN = Fin 0 \<and> clamp_nonneg (Fin x) = Fin (max 0 x)"
  using inv_observations by (auto simp: state_inv_def clamp_nonneg_def)

theorem cash_never_negative_witness:
  "simulate \<lparr>fee_rate = Fin (5 / 100), slip_bps = Fin 0, tp = Fin (- 1), sl = Fin (- 1)\<rparr> 1 2
       [Fin 2, Fin 1, Fin 4, Fin 4]
     \<in> set (observations \<lparr>fee_rate = Fin (5 / 100), slip_bps = Fin 0, tp = Fin (- 1), sl = Fin (- 1)\<rparr> 1 2
       [Fin 2, Fin 1, Fin 4, Fin 4])
   \<and> Fin 0 \<le> cash (simulate \<lparr>fee_rate = Fin (5 / 100), slip_bps = Fin 0, tp = Fin (- 1), sl = Fin (- 1)\<rparr> 1 2
       [Fin 2, Fin 1, Fin 4, Fin 4])"
proof -
  let ?P = "\<lparr>fee_rate = Fin (5 / 100), slip_bps = Fin 0, tp = Fin (- 1), sl = Fin (- 1)\<rparr>"
  let ?px = "[Fin 2, Fin 1, Fin 4, Fin 4]"
  have m: "simulate ?P 1 2 ?px \<in> set (observations ?P 1 2 ?px)"
    by (simp add: observations_def)
  show ?thesis using cash_never_negative [of ?P 1 2 ?px] m by blast
qed

subsection \<open>C7: the maximum drawdown\<close>

lemma state_at_Suc:
  "1 \<le> m \<Longrightarrow> state_at P fast slow px (Suc m)
     = candle P px (compute_sma px fast) (compute_sma px slow) m (state_at P fast slow px m)"
  by (simp add: state_at_def run_loop_def)

lemma state_at_start: "m \<le> 1 \<Longrightarrow> state_at P fast slow px m = init_state"
  by (simp add: state_at_def run_loop_def)

lemma maxdd_candle: "state_inv st \<Longrightarrow> maxdd st \<le> maxdd (candle P px f s i st)"
proof (cases "Fin 0 < px ! i")
  case True
  assume i: "state_inv st"
  let ?st2 = "signal_step P (px ! i) (f ! (i - 1)) (s ! (i - 1)) (f ! i) (s ! i) (risk_check P (px ! i) st)"
  have i2: "state_inv ?st2" using i by (simp add: inv_signal_step inv_risk_check)
  have "maxdd (risk_check P (px ! i) st) = maxdd st"
    by (simp add: risk_check_def exit_fill_fields)
  moreover have "maxdd (signal_step P (px ! i) pf ps cf cs st') = maxdd st'" for pf ps cf cs st'
    using entry_fill_cases [of P "px ! i" st']
    by (auto simp: signal_step_def exit_fill_fields entered_fields split: action.splits)
  ultimately have "maxdd ?st2 = maxdd st" by simp
  moreover have "maxdd ?st2 \<le> maxdd (mdd_update (px ! i) ?st2)"
    using mdd_update_maxdd [of "px ! i" ?st2] True i2 by (simp add: state_inv_def)
  ultimately show ?thesis using True by (simp add: candle_def Let_def)
next
  case False
  assume "state_inv st"
  then have "maxdd st \<le> maxdd st" by (auto simp: state_inv_def elim!: le_dblE)
  then show ?thesis using False by (simp add: candle_def Let_def)
qed

lemma maxdd_liquidate: "maxdd (liquidate P px st) = maxdd st" "peak (liquidate P px st) = peak st"
  by (simp_all add: liquidate_def Let_def)

text \<open>
  C7. For every input, the maximum drawdown is 0 at the start, does not decrease from
  one candle to the next, lies between 0 and 1 at every observation point, and is not
  changed by the forced liquidation.
\<close>

theorem max_drawdown_monotone_bounded:
  "maxdd (state_at P fast slow px 0) = Fin 0
   \<and> (\<forall>m < length px. maxdd (state_at P fast slow px m) \<le> maxdd (state_at P fast slow px (Suc m)))
   \<and> (\<forall>st \<in> set (observations P fast slow px). Fin 0 \<le> maxdd st \<and> maxdd st \<le> Fin 1)
   \<and> maxdd (simulate P fast slow px) = maxdd (state_at P fast slow px (length px))"
proof (intro conjI allI impI ballI)
  show "maxdd (state_at P fast slow px 0) = Fin 0"
    by (simp add: state_at_start init_state_def)
next
  fix m
  show "maxdd (state_at P fast slow px m) \<le> maxdd (state_at P fast slow px (Suc m))"
  proof (cases "1 \<le> m")
    case True
    then show ?thesis by (simp add: state_at_Suc maxdd_candle inv_state_at)
  next
    case False
    then show ?thesis by (simp add: state_at_start init_state_def)
  qed
next
  fix st assume "st \<in> set (observations P fast slow px)"
  then have "state_inv st" by (rule inv_observations)
  then show "Fin 0 \<le> maxdd st" "maxdd st \<le> Fin 1" by (simp_all add: state_inv_def)
next
  show "maxdd (simulate P fast slow px) = maxdd (state_at P fast slow px (length px))"
    by (simp add: simulate_def state_at_def maxdd_liquidate)
qed

theorem max_drawdown_monotone_bounded_witness:
  "(2::nat) < length [Fin 2, Fin 1, Fin 4, Fin 4]
   \<and> maxdd (state_at \<lparr>fee_rate = Fin (5 / 100), slip_bps = Fin 0, tp = Fin (- 1), sl = Fin (- 1)\<rparr> 1 2
              [Fin 2, Fin 1, Fin 4, Fin 4] 2) = Fin 0
   \<and> maxdd (state_at \<lparr>fee_rate = Fin (5 / 100), slip_bps = Fin 0, tp = Fin (- 1), sl = Fin (- 1)\<rparr> 1 2
              [Fin 2, Fin 1, Fin 4, Fin 4] (Suc 2)) = Fin (47619047619 / 1000000000000)
   \<and> maxdd (state_at \<lparr>fee_rate = Fin (5 / 100), slip_bps = Fin 0, tp = Fin (- 1), sl = Fin (- 1)\<rparr> 1 2
              [Fin 2, Fin 1, Fin 4, Fin 4] 2)
      \<le> maxdd (state_at \<lparr>fee_rate = Fin (5 / 100), slip_bps = Fin 0, tp = Fin (- 1), sl = Fin (- 1)\<rparr> 1 2
              [Fin 2, Fin 1, Fin 4, Fin 4] (Suc 2))
   \<and> simulate \<lparr>fee_rate = Fin (5 / 100), slip_bps = Fin 0, tp = Fin (- 1), sl = Fin (- 1)\<rparr> 1 2
       [Fin 2, Fin 1, Fin 4, Fin 4]
     \<in> set (observations \<lparr>fee_rate = Fin (5 / 100), slip_bps = Fin 0, tp = Fin (- 1), sl = Fin (- 1)\<rparr> 1 2
       [Fin 2, Fin 1, Fin 4, Fin 4])
   \<and> maxdd (simulate \<lparr>fee_rate = Fin (5 / 100), slip_bps = Fin 0, tp = Fin (- 1), sl = Fin (- 1)\<rparr> 1 2
       [Fin 2, Fin 1, Fin 4, Fin 4]) \<le> Fin 1"
proof -
  let ?P = "\<lparr>fee_rate = Fin (5 / 100), slip_bps = Fin 0, tp = Fin (- 1), sl = Fin (- 1)\<rparr>"
  let ?px = "[Fin 2, Fin 1, Fin 4, Fin 4]"
  have l: "(2::nat) < length ?px" by simp
  have m: "simulate ?P 1 2 ?px \<in> set (observations ?P 1 2 ?px)"
    by (simp add: observations_def)
  have v: "maxdd (state_at ?P 1 2 ?px 2) = Fin 0"
    "maxdd (state_at ?P 1 2 ?px (Suc 2)) = Fin (47619047619 / 1000000000000)"
    by code_simp+
  from max_drawdown_monotone_bounded [of ?P 1 2 ?px]
  have a: "\<forall>m < length ?px. maxdd (state_at ?P 1 2 ?px m) \<le> maxdd (state_at ?P 1 2 ?px (Suc m))"
    and b: "\<forall>st \<in> set (observations ?P 1 2 ?px). Fin 0 \<le> maxdd st \<and> maxdd st \<le> Fin 1"
    by blast+
  from a l have "maxdd (state_at ?P 1 2 ?px 2) \<le> maxdd (state_at ?P 1 2 ?px (Suc 2))" by blast
  moreover from b m have "maxdd (simulate ?P 1 2 ?px) \<le> Fin 1" by blast
  ultimately show ?thesis using l m v by blast
qed

subsection \<open>C8: position and entry price\<close>

text \<open>
  C8. At every observation point of a run the position is positive exactly when the
  entry price is defined. An entry fill that changes the state leaves a positive
  position and a defined entry price; an exit fill and a forced liquidation that changes
  the state leave the position 0 and the entry price undefined.
\<close>

theorem position_iff_entry_defined:
  "(\<forall>st \<in> set (observations P fast slow px). (Fin 0 < pos st) = (\<not> isnan (entry st)))
   \<and> (entry_fill P price st = st
        \<or> (Fin 0 < pos (entry_fill P price st) \<and> \<not> isnan (entry (entry_fill P price st))))
   \<and> (pos (exit_fill P price st) = Fin 0 \<and> isnan (entry (exit_fill P price st)))
   \<and> (liquidate P px st = st
        \<or> (pos (liquidate P px st) = Fin 0 \<and> isnan (entry (liquidate P px st))))"
proof (intro conjI ballI)
  fix st' assume "st' \<in> set (observations P fast slow px)"
  then have "state_inv st'" by (rule inv_observations)
  then show "(Fin 0 < pos st') = (\<not> isnan (entry st'))" by (simp add: state_inv_def)
next
  show "entry_fill P price st = st
        \<or> (Fin 0 < pos (entry_fill P price st) \<and> \<not> isnan (entry (entry_fill P price st)))"
    using entry_fill_cases [of P price st] by (auto simp: entered_fields denom_defined)
next
  show "pos (exit_fill P price st) = Fin 0" "isnan (entry (exit_fill P price st))"
    by (simp_all add: exit_fill_fields)
next
  show "liquidate P px st = st
        \<or> (pos (liquidate P px st) = Fin 0 \<and> isnan (entry (liquidate P px st)))"
    by (simp add: liquidate_def Let_def)
qed

theorem position_iff_entry_defined_witness:
  "simulate \<lparr>fee_rate = Fin 0, slip_bps = Fin 0, tp = Fin (- 1), sl = Fin (- 1)\<rparr> 1 2
       [Fin 2, Fin 1, Fin 4, NaN]
     \<in> set (observations \<lparr>fee_rate = Fin 0, slip_bps = Fin 0, tp = Fin (- 1), sl = Fin (- 1)\<rparr> 1 2
       [Fin 2, Fin 1, Fin 4, NaN])
   \<and> pos (simulate \<lparr>fee_rate = Fin 0, slip_bps = Fin 0, tp = Fin (- 1), sl = Fin (- 1)\<rparr> 1 2
       [Fin 2, Fin 1, Fin 4, NaN]) = Fin 2500
   \<and> \<not> isnan (entry (simulate \<lparr>fee_rate = Fin 0, slip_bps = Fin 0, tp = Fin (- 1), sl = Fin (- 1)\<rparr> 1 2
       [Fin 2, Fin 1, Fin 4, NaN]))"
proof -
  let ?P = "\<lparr>fee_rate = Fin 0, slip_bps = Fin 0, tp = Fin (- 1), sl = Fin (- 1)\<rparr>"
  let ?px = "[Fin 2, Fin 1, Fin 4, NaN]"
  have m: "simulate ?P 1 2 ?px \<in> set (observations ?P 1 2 ?px)"
    by (simp add: observations_def)
  have v: "pos (simulate ?P 1 2 ?px) = Fin 2500" by code_simp
  from position_iff_entry_defined [of ?P 1 2 ?px]
  have "\<forall>st \<in> set (observations ?P 1 2 ?px). (Fin 0 < pos st) = (\<not> isnan (entry st))" by blast
  with m have "(Fin 0 < pos (simulate ?P 1 2 ?px)) = (\<not> isnan (entry (simulate ?P 1 2 ?px)))" by blast
  then show ?thesis using v m by simp
qed

subsection \<open>C9: the round trip without costs\<close>

text \<open>
  C9. With \<open>fee_rate = 0\<close> and \<open>slip_bps = 0\<close>, from a flat state with a cash balance
  that is not negative, an entry fill followed by an exit fill at the same positive
  price leaves cash exactly as it was (in exact arithmetic).
\<close>

theorem round_trip_no_cost:
  assumes "fee_rate P = Fin 0" and "slip_bps P = Fin 0"
    and "price = Fin p" and "0 < p"
    and "cash st = Fin c" and "0 \<le> c" and "pos st = Fin 0"
  shows "cash (exit_fill P price (entry_fill P price st)) = cash st"
proof -
  have fp: "entry_fill_price P price = Fin p" "entry_denom P price = Fin p"
    using assms by (simp_all add: entry_fill_price_def entry_denom_def)
  define q where "q = of_int \<lfloor>(c / p) / (1 / 10 ^ 8)\<rfloor> * (1 / 10 ^ 8 :: real)"
  have q: "entry_qty P price st = Fin q"
    using assms fp by (simp add: entry_qty_def lot_round_def q_def)
  have "q \<le> c / p" unfolding q_def by (rule floor_lot_le)
  then have qp: "q * p \<le> c" using \<open>0 < p\<close> by (simp add: pos_le_divide_eq)
  have after: "entry_cash_after P price st = Fin (c - q * p)"
    using assms fp q by (simp add: entry_cash_after_def)
  have newc: "entry_new_cash P price st = Fin (c - q * p)"
    using qp by (simp add: entry_new_cash_def after)
  have xp: "price * (Fin 1 - slip_bps P / Fin 10000) = Fin p" using assms by simp
  from entry_fill_cases [of P price st] show ?thesis
  proof
    assume "entry_fill P price st = st"
    then show ?thesis using assms xp by (simp add: exit_fill_def Let_def clamp_nonneg_def)
  next
    assume "entry_fill P price st = entered P price st (entry_new_cash P price st)
      \<and> eps < entry_denom P price \<and> Fin 0 < entry_qty P price st"
    then have e: "entry_fill P price st = entered P price st (Fin (c - q * p))"
      by (simp add: newc)
    have "cash (entered P price st (Fin (c - q * p))) = Fin (c - q * p)"
      using qp by (simp add: entered_def clamp_nonneg_def)
    moreover have "pos (entered P price st (Fin (c - q * p))) = Fin q"
      by (simp add: entered_def q)
    ultimately show ?thesis using assms xp e by (simp add: exit_fill_def Let_def clamp_nonneg_def)
  qed
qed

theorem round_trip_no_cost_witness:
  "fee_rate \<lparr>fee_rate = Fin 0, slip_bps = Fin 0, tp = Fin (- 1), sl = Fin (- 1)\<rparr> = Fin 0
   \<and> slip_bps \<lparr>fee_rate = Fin 0, slip_bps = Fin 0, tp = Fin (- 1), sl = Fin (- 1)\<rparr> = Fin 0
   \<and> (0::real) < 3 \<and> cash init_state = Fin 10000 \<and> (0::real) \<le> 10000 \<and> pos init_state = Fin 0
   \<and> cash (entry_fill \<lparr>fee_rate = Fin 0, slip_bps = Fin 0, tp = Fin (- 1), sl = Fin (- 1)\<rparr> (Fin 3) init_state)
       = Fin (1 / 10 ^ 8)
   \<and> cash (exit_fill \<lparr>fee_rate = Fin 0, slip_bps = Fin 0, tp = Fin (- 1), sl = Fin (- 1)\<rparr> (Fin 3)
        (entry_fill \<lparr>fee_rate = Fin 0, slip_bps = Fin 0, tp = Fin (- 1), sl = Fin (- 1)\<rparr> (Fin 3) init_state))
       = Fin 10000"
proof -
  let ?P = "\<lparr>fee_rate = Fin 0, slip_bps = Fin 0, tp = Fin (- 1), sl = Fin (- 1)\<rparr>"
  have h: "fee_rate ?P = Fin 0" "slip_bps ?P = Fin 0" "Fin 3 = Fin 3" "(0::real) < 3"
    "cash init_state = Fin 10000" "(0::real) \<le> 10000" "pos init_state = Fin 0"
    by (simp_all add: init_state_def initial_cash_def)
  have v: "cash (entry_fill ?P (Fin 3) init_state) = Fin (1 / 10 ^ 8)" by code_simp
  show ?thesis using round_trip_no_cost [OF h] h v by simp
qed

subsection \<open>C10: what the forced liquidation leaves alone\<close>

text \<open>
  C10. The forced liquidation changes neither the peak equity nor the maximum drawdown,
  so the reported maximum drawdown is the one the loop ended with. On the series
  2, 1, 4, 4 with windows 1 and 2 and a fee of 5 percent the final equity is below
  peak equity times one minus the reported maximum drawdown.
\<close>

theorem liquidation_frame:
  "peak (liquidate P px st) = peak st
   \<and> maxdd (liquidate P px st) = maxdd st
   \<and> max_drawdown (report (liquidate P px st)) = maxdd st
   \<and> final_equity (report (simulate \<lparr>fee_rate = Fin (5 / 100), slip_bps = Fin 0, tp = Fin (- 1), sl = Fin (- 1)\<rparr>
                               1 2 [Fin 2, Fin 1, Fin 4, Fin 4]))
       < peak (simulate \<lparr>fee_rate = Fin (5 / 100), slip_bps = Fin 0, tp = Fin (- 1), sl = Fin (- 1)\<rparr>
                               1 2 [Fin 2, Fin 1, Fin 4, Fin 4])
         * (Fin 1 - max_drawdown (report (simulate \<lparr>fee_rate = Fin (5 / 100), slip_bps = Fin 0, tp = Fin (- 1), sl = Fin (- 1)\<rparr>
                               1 2 [Fin 2, Fin 1, Fin 4, Fin 4])))"
proof -
  let ?P = "\<lparr>fee_rate = Fin (5 / 100), slip_bps = Fin 0, tp = Fin (- 1), sl = Fin (- 1)\<rparr>"
  have fr: "peak (liquidate P px st) = peak st" "maxdd (liquidate P px st) = maxdd st"
    by (simp_all add: liquidate_def Let_def)
  then have rp: "max_drawdown (report (liquidate P px st)) = maxdd st"
    by (simp add: report_def Let_def)
  have run: "simulate ?P 1 2 [Fin 2, Fin 1, Fin 4, Fin 4]
      = \<lparr>cash = Fin (452380952381 / 50000000), pos = Fin 0, entry = NaN, peak = Fin 10000,
         maxdd = Fin (47619047619 / 1000000000000), trades = 1, wins = 0\<rparr>"
    by code_simp
  have "final_equity (report (simulate ?P 1 2 [Fin 2, Fin 1, Fin 4, Fin 4]))
       < peak (simulate ?P 1 2 [Fin 2, Fin 1, Fin 4, Fin 4])
         * (Fin 1 - max_drawdown (report (simulate ?P 1 2 [Fin 2, Fin 1, Fin 4, Fin 4])))"
    unfolding run by (simp add: report_def Let_def)
  with fr rp show ?thesis by simp
qed

end
